theory Spec2Isabelle
  imports Main "HOL-Library.Word" "HOL-Library.Sublist"
begin

unbundle bit_operations_syntax

section \<open>A forward HTTP proxy with cache and rate limiter: the model\<close>

text \<open>
  The program is \<^verbatim>\<open>server/server.go\<close>. Its process-wide variables (\<^verbatim>\<open>cache\<close>,
  \<^verbatim>\<open>clients\<close>) are the fields of a record that every operation takes and returns;
  everything the program does to the outside (locks, log lines, bytes sent, connections
  opened) is appended to a trace of events, in program order. What the outside answers
  (the result of parsing a URL, of the upstream round trip, of a dial) is read from an
  environment record, so every error branch of the source is a branch of the model.
\<close>

subsection \<open>Bytes, headers, requests\<close>

type_synonym u8 = "8 word"
type_synonym u32 = "32 word"

text \<open>Go's \<^verbatim>\<open>string\<close> and \<^verbatim>\<open>[]byte\<close> are both byte sequences: \<^typ>\<open>string\<close>.\<close>

text \<open>
  \<^verbatim>\<open>http.Header\<close> is \<^verbatim>\<open>map[string][]string\<close>. Header keys are taken in canonical form
  (as the HTTP parser of net/http delivers them), so the canonicalisation done by
  \<^verbatim>\<open>Add\<close>, \<^verbatim>\<open>Set\<close> and \<^verbatim>\<open>Del\<close> is the identity here. A header that is ranged over is
  given as the list of its entries, in the order the runtime happens to visit them.
\<close>

type_synonym header = "string \<rightharpoonup> string list"
type_synonym header_entries = "(string \<times> string list) list"

definition header_Values :: "header \<Rightarrow> string \<Rightarrow> string list" where
  "header_Values h k = (case h k of None \<Rightarrow> [] | Some vs \<Rightarrow> vs)"

definition header_Add :: "string \<Rightarrow> string \<Rightarrow> header \<Rightarrow> header" where
  "header_Add k v h = h(k \<mapsto> header_Values h k @ [v])"

definition header_Set :: "string \<Rightarrow> string \<Rightarrow> header \<Rightarrow> header" where
  "header_Set k v h = h(k \<mapsto> [v])"

definition header_Del :: "string \<Rightarrow> header \<Rightarrow> header" where
  "header_Del k h = h(k := None)"

text \<open>
  The two nested \<^verbatim>\<open>range\<close> loops that copy a header:
  \<^verbatim>\<open>for header, values := range src { for _, value := range values { dst.Add(header, value) } }\<close>
\<close>

definition add_values :: "string \<Rightarrow> string list \<Rightarrow> header \<Rightarrow> header" where
  "add_values k vs h = foldl (\<lambda>h v. header_Add k v h) h vs"

definition copy_header :: "header_entries \<Rightarrow> header \<Rightarrow> header" where
  "copy_header src dst = foldl (\<lambda>h (k, vs). add_values k vs h) dst src"

text \<open>
  A parsed \<^verbatim>\<open>*url.URL\<close>. The program reads a parsed URL only through \<^verbatim>\<open>String()\<close>
  (in \<^verbatim>\<open>cacheKey\<close> and in \<^verbatim>\<open>http.NewRequest\<close>), so the value is represented by that
  canonical string.
\<close>

datatype url = URL (url_String: string)

record request =
  req_Method :: string
  req_RequestURI :: string
  req_Host :: string
  req_RemoteAddr :: string
  req_URL_Path :: string
  req_Header :: header_entries
  req_Body :: string

record proxy_request =
  preq_Method :: string
  preq_URL :: string
  preq_Header :: header
  preq_Body :: string

text \<open>
  An upstream \<^verbatim>\<open>*http.Response\<close>: \<open>up_Body\<close> is what \<^verbatim>\<open>io.ReadAll(resp.Body)\<close> gives,
  \<open>None\<close> when the read fails. \<open>up_StatusCode\<close> is the number in the status line: the
  client of net/http takes any three digits, so it may be below 100.
\<close>

record upstream_response =
  up_StatusCode :: nat
  up_Header :: header_entries
  up_Body :: "string option"

subsection \<open>The response writer\<close>

text \<open>
  \<^verbatim>\<open>http.ResponseWriter\<close> as net/http implements it: the status line and the header map
  are sent once, by the first \<^verbatim>\<open>WriteHeader\<close> with a final status code or, implicitly
  with status 200, by the first \<^verbatim>\<open>Write\<close>; a later \<^verbatim>\<open>WriteHeader\<close> is ignored and later
  changes of the header map are not sent. \<open>rw_status\<close>, \<open>rw_sent_header\<close> and \<open>rw_body\<close>
  are what the client observes. \<open>rw_hijacker\<close> says whether the writer implements
  \<^verbatim>\<open>http.Hijacker\<close>. \<open>rw_panicked\<close> says that the handler has panicked in \<^verbatim>\<open>WriteHeader\<close>:
  the server then recovers, logs and closes the connection, and the client gets no
  response.
\<close>

record response_writer =
  rw_header :: header
  rw_wroteHeader :: bool
  rw_status :: nat
  rw_sent_header :: header
  rw_body :: string
  rw_hijacker :: bool
  rw_hijacked :: bool
  rw_panicked :: bool

subsection \<open>Global state and events\<close>

datatype mutex = cacheMutex | clientsMux | logFileMutex

datatype log_msg =
    ProxyStarted
  | ClientHasMade string int
  | RateLimitExceeded string
  | CacheHit string
  | Served string
  | FailedForward string
  | FailedReadBody string
  | FailedConnect string
  | FailedHijack string

datatype event =
    Lock mutex
  | Unlock mutex
  | CacheGet string
  | CachePut string
  | ClientsGet string
  | ClientsPut string
  | ClientsReplace
  | LogPrintf log_msg
  | LogFileWrite log_msg
  | SendHeader nat
  | SendInformational nat
  | SendBody string
  | Panic
  | UpstreamDo proxy_request
  | ReadAllBody
  | CloseBody
  | NetDial string
  | Hijack
  | TunnelCopy
  | CloseClientConn
  | CloseDestConn
  | Sleep

record world =
  cache :: "string \<rightharpoonup> string"
  clients :: "string \<rightharpoonup> int"
  trace :: "event list"

text \<open>
  What the outside answers. \<open>other_cache_writes\<close> is what the other connections' tasks
  did to the cache while this request waited for the upstream.
\<close>

record env =
  net_SplitHostPort :: "string \<Rightarrow> (string \<times> string) option"
  url_Parse :: "string \<Rightarrow> url option"
  http_NewRequest_ok :: "string \<Rightarrow> string \<Rightarrow> bool"
  client_Do :: "proxy_request \<Rightarrow> upstream_response option"
  net_Dial :: "string \<Rightarrow> bool"
  hijack_ok :: bool
  other_cache_writes :: "(string \<rightharpoonup> string) \<Rightarrow> (string \<rightharpoonup> string)"

text \<open>A handler works on its response writer and on the globals.\<close>

type_synonym state = "response_writer \<times> world"
type_synonym handler = "request \<Rightarrow> state \<Rightarrow> state"

subsection \<open>SHA-1 (FIPS 180-4), as \<^verbatim>\<open>crypto/sha1\<close> computes it\<close>

definition be32 :: "u8 list \<Rightarrow> u32" where
  "be32 bs = foldl (\<lambda>acc b. push_bit 8 acc OR ucast b) 0 bs"

fun chunks4 :: "u8 list \<Rightarrow> u32 list" where
  "chunks4 (a # b # c # d # rest) = be32 [a, b, c, d] # chunks4 rest"
| "chunks4 _ = []"

definition be64_bytes :: "64 word \<Rightarrow> u8 list" where
  "be64_bytes n = map (\<lambda>i. ucast (drop_bit (8 * (7 - i)) n)) [0..<8]"

definition be32_bytes :: "u32 \<Rightarrow> u8 list" where
  "be32_bytes n = map (\<lambda>i. ucast (drop_bit (8 * (3 - i)) n)) [0..<4]"

definition sha1_pad :: "u8 list \<Rightarrow> u8 list" where
  "sha1_pad m =
     m @ [0x80] @ replicate ((119 - length m mod 64) mod 64) 0 @ be64_bytes (8 * of_nat (length m))"

fun schedule :: "nat \<Rightarrow> u32 list \<Rightarrow> u32 list" where
  "schedule 0 w = w"
| "schedule (Suc n) w =
     schedule n (w @ [word_rotl 1 (w ! (length w - 3) XOR w ! (length w - 8)
                                   XOR w ! (length w - 14) XOR w ! (length w - 16))])"

type_synonym sha1_state = "u32 \<times> u32 \<times> u32 \<times> u32 \<times> u32"

definition sha1_f :: "nat \<Rightarrow> u32 \<Rightarrow> u32 \<Rightarrow> u32 \<Rightarrow> u32" where
  "sha1_f t b c d =
     (if t < 20 then (b AND c) OR (NOT b AND d)
      else if t < 40 then b XOR c XOR d
      else if t < 60 then (b AND c) OR (b AND d) OR (c AND d)
      else b XOR c XOR d)"

definition sha1_k :: "nat \<Rightarrow> u32" where
  "sha1_k t = (if t < 20 then 0x5A827999 else if t < 40 then 0x6ED9EBA1
               else if t < 60 then 0x8F1BBCDC else 0xCA62C1D6)"

fun sha1_round :: "sha1_state \<Rightarrow> (nat \<times> u32) \<Rightarrow> sha1_state" where
  "sha1_round (a, b, c, d, e) (t, wt) =
     (word_rotl 5 a + sha1_f t b c d + e + wt + sha1_k t, a, word_rotl 30 b, c, d)"

fun sha1_block :: "sha1_state \<Rightarrow> u32 list \<Rightarrow> sha1_state" where
  "sha1_block (h0, h1, h2, h3, h4) blk =
     (case foldl sha1_round (h0, h1, h2, h3, h4) (zip [0..<80] (schedule 64 blk)) of
        (a, b, c, d, e) \<Rightarrow> (h0 + a, h1 + b, h2 + c, h3 + d, h4 + e))"

function blocks16 :: "u32 list \<Rightarrow> u32 list list" where
  "blocks16 ws = (if length ws < 16 then [] else take 16 ws # blocks16 (drop 16 ws))"
  by pat_completeness auto
termination
  by (relation "measure length") auto

declare blocks16.simps [simp del]

definition sha1_init :: sha1_state where
  "sha1_init = (0x67452301, 0xEFCDAB89, 0x98BADCFE, 0x10325476, 0xC3D2E1F0)"

definition sha1_Sum :: "string \<Rightarrow> u8 list" where
  "sha1_Sum m =
     (case foldl sha1_block sha1_init (blocks16 (chunks4 (sha1_pad (map of_char m)))) of
        (a, b, c, d, e) \<Rightarrow> concat (map be32_bytes [a, b, c, d, e]))"

text \<open>\<^verbatim>\<open>fmt.Sprintf("%x", bytes)\<close>: two lower-case hexadecimal digits for each byte.\<close>

definition hexdigit :: "u8 \<Rightarrow> char" where
  "hexdigit n = ''0123456789abcdef'' ! unat (n AND 0xF)"

definition hex_byte :: "u8 \<Rightarrow> string" where
  "hex_byte b = [hexdigit (drop_bit 4 b), hexdigit b]"

definition sprintf_x :: "u8 list \<Rightarrow> string" where
  "sprintf_x bs = concat (map hex_byte bs)"




subsection \<open>\<^verbatim>\<open>server.go\<close>\<close>

definition maxRequestsPerMinute :: int where
  "maxRequestsPerMinute = 60"

definition cacheKey :: "url \<Rightarrow> string" where
  "cacheKey u = sprintf_x (sha1_Sum (url_String u))"

fun emit :: "event list \<Rightarrow> state \<Rightarrow> state" where
  "emit es (res, w) = (res, w\<lparr>trace := trace w @ es\<rparr>)"

text \<open>
  \<^verbatim>\<open>logEvent\<close>: under \<^verbatim>\<open>logFileMutex\<close>, one line to the standard logger and one to the
  log file (\<^verbatim>\<open>main\<close> has opened it, or has exited). The text of the line is kept as a
  constructor with its arguments; durations are left out.
\<close>

definition log_events :: "log_msg \<Rightarrow> event list" where
  "log_events msg = [Lock logFileMutex, LogPrintf msg, LogFileWrite msg, Unlock logFileMutex]"

definition logEvent :: "log_msg \<Rightarrow> state \<Rightarrow> state" where
  "logEvent msg = emit (log_events msg)"

text \<open>
  \<^verbatim>\<open>checkWriteHeaderCode\<close> of net/http panics on a code below 100 or above 999; here it
  says whether the code passes.
\<close>

definition checkWriteHeaderCode :: "nat \<Rightarrow> bool" where
  "checkWriteHeaderCode code = (100 \<le> code \<and> code \<le> 999)"

text \<open>The 1xx codes other than 101 Switching Protocols.\<close>

definition informational :: "nat \<Rightarrow> bool" where
  "informational code = (100 \<le> code \<and> code \<le> 199 \<and> code \<noteq> 101)"

text \<open>
  \<^verbatim>\<open>WriteHeader\<close>: ignored once the header is written; else it panics on a code that
  does not pass the check; else an informational code is sent at once, with the header
  still to be written; else the code and the header map are the response's.
\<close>

fun rw_WriteHeader :: "nat \<Rightarrow> state \<Rightarrow> state" where
  "rw_WriteHeader code (res, w) =
     (if rw_wroteHeader res then (res, w)
      else if \<not> checkWriteHeaderCode code then emit [Panic] (res\<lparr>rw_panicked := True\<rparr>, w)
      else if informational code then emit [SendInformational code] (res, w)
      else emit [SendHeader code]
             (res\<lparr>rw_wroteHeader := True, rw_status := code, rw_sent_header := rw_header res\<rparr>, w))"

text \<open>Whether that call panics: the statements after it do not run then.\<close>

definition WriteHeader_panics :: "nat \<Rightarrow> state \<Rightarrow> bool" where
  "WriteHeader_panics code st = (\<not> rw_wroteHeader (fst st) \<and> \<not> checkWriteHeaderCode code)"

text \<open>\<^verbatim>\<open>Write\<close>: \<^verbatim>\<open>WriteHeader(200)\<close> first when no header is written yet.\<close>

fun rw_Write :: "string \<Rightarrow> state \<Rightarrow> state" where
  "rw_Write b (res, w) =
     (case rw_WriteHeader 200 (res, w) of
        (res1, w1) \<Rightarrow> emit [SendBody b] (res1\<lparr>rw_body := rw_body res1 @ b\<rparr>, w1))"

fun rw_set_header :: "(header \<Rightarrow> header) \<Rightarrow> state \<Rightarrow> state" where
  "rw_set_header f (res, w) = (res\<lparr>rw_header := f (rw_header res)\<rparr>, w)"

text \<open>
  \<^verbatim>\<open>http.Error(w, msg, code)\<close> of net/http: it drops Content-Length, sets the two
  plain-text headers, calls \<^verbatim>\<open>WriteHeader(code)\<close> and prints the message and a newline.
  The program calls it with 400, 429, 500 and 503 (and the server with 404), which
  pass the check, so its callers go on after it.
\<close>

definition http_Error :: "string \<Rightarrow> nat \<Rightarrow> state \<Rightarrow> state" where
  "http_Error msg code st =
     (let st1 = rw_set_header
                  (header_Set ''X-Content-Type-Options'' ''nosniff''
                     \<circ> header_Set ''Content-Type'' ''text/plain; charset=utf-8''
                     \<circ> header_Del ''Content-Length'') st
      in if WriteHeader_panics code st1 then rw_WriteHeader code st1
         else rw_Write (msg @ [CHR 0x0A]) (rw_WriteHeader code st1))"

fun set_cache :: "(string \<rightharpoonup> string) \<Rightarrow> state \<Rightarrow> state" where
  "set_cache c (res, w) = (res, w\<lparr>cache := c\<rparr>)"

fun set_clients :: "(string \<rightharpoonup> int) \<Rightarrow> state \<Rightarrow> state" where
  "set_clients c (res, w) = (res, w\<lparr>clients := c\<rparr>)"

definition normalise_RequestURI :: "request \<Rightarrow> request" where
  "normalise_RequestURI req =
     (if \<not> prefix ''http://'' (req_RequestURI req) \<and> \<not> prefix ''https://'' (req_RequestURI req)
      then req\<lparr>req_RequestURI := ''http://'' @ req_Host req @ req_RequestURI req\<rparr>
      else req)"

definition handleRequestAndCache :: "env \<Rightarrow> handler" where
  "handleRequestAndCache E req0 st0 =
     (let req = normalise_RequestURI req0 in
      case url_Parse E (req_RequestURI req) of
        None \<Rightarrow> http_Error ''Bad request'' 400 st0
      | Some parsedURL \<Rightarrow>
          let key = cacheKey parsedURL;
              st1 = emit [Lock cacheMutex, CacheGet key] st0
          in
          (case cache (snd st1) key of
             Some cachedResp \<Rightarrow>
               logEvent (Served (req_RequestURI req))
                 (rw_Write cachedResp
                    (logEvent (CacheHit (req_RequestURI req))
                       (emit [Unlock cacheMutex] st1)))
           | None \<Rightarrow>
               let st2 = emit [Unlock cacheMutex] st1 in
               if \<not> http_NewRequest_ok E (req_Method req) (url_String parsedURL)
               then http_Error ''Failed to create request'' 500 st2
               else
                 let proxyReq = \<lparr>preq_Method = req_Method req,
                                  preq_URL = url_String parsedURL,
                                  preq_Header = copy_header (req_Header req) Map.empty,
                                  preq_Body = req_Body req\<rparr>;
                     st3 = emit [UpstreamDo proxyReq] st2
                 in
                 (case client_Do E proxyReq of
                    None \<Rightarrow>
                      logEvent (FailedForward (req_RequestURI req))
                        (http_Error ''Failed to forward request'' 500 st3)
                  | Some resp \<Rightarrow>
                      let st4 = emit [ReadAllBody] st3 in
                      (case up_Body resp of
                         None \<Rightarrow>
                           emit [CloseBody]
                             (logEvent (FailedReadBody (req_RequestURI req))
                                (http_Error ''Failed to read response body'' 500 st4))
                       | Some body \<Rightarrow>
                           let st5 = emit [Lock cacheMutex] st4;
                               st6 = emit [CachePut key, Unlock cacheMutex]
                                       (set_cache
                                          ((other_cache_writes E (cache (snd st5)))(key \<mapsto> body))
                                          st5);
                               st7 = rw_set_header (copy_header (up_Header resp)) st6
                           in
                           if WriteHeader_panics (up_StatusCode resp) st7
                           then emit [CloseBody] (rw_WriteHeader (up_StatusCode resp) st7)
                           else
                             let st8 = rw_WriteHeader (up_StatusCode resp) st7;
                                 st9 = rw_Write body st8
                             in emit [CloseBody]
                                  (logEvent (Served (req_RequestURI req)) st9)))))"

definition handleConnect :: "env \<Rightarrow> handler" where
  "handleConnect E req st0 =
     (let st1 = emit [NetDial (req_Host req)] st0 in
      if \<not> net_Dial E (req_Host req)
      then logEvent (FailedConnect (req_Host req))
             (http_Error ''Failed to connect to destination'' 503 st1)
      else
        let st2 = rw_WriteHeader 200 st1 in
        if \<not> rw_hijacker (fst st2)
        then emit [CloseDestConn] (http_Error ''Hijacking not supported'' 500 st2)
        else
          let st3 = emit [Hijack] st2 in
          if \<not> hijack_ok E
          then emit [CloseDestConn]
                 (logEvent (FailedHijack (req_Host req))
                    (http_Error ''Failed to hijack connection'' 503 st3))
          else emit [TunnelCopy, CloseClientConn, CloseDestConn]
                 (apfst (\<lambda>res. res\<lparr>rw_hijacked := True\<rparr>) st3))"

definition extractIP :: "env \<Rightarrow> string \<Rightarrow> string" where
  "extractIP E remoteAddr =
     (if CHR '':'' \<in> set remoteAddr
      then (case net_SplitHostPort E remoteAddr of
              None \<Rightarrow> remoteAddr
            | Some (host, port) \<Rightarrow> host)
      else remoteAddr)"

text \<open>A missing key of a Go map reads as the zero value.\<close>

definition client_count :: "world \<Rightarrow> string \<Rightarrow> int" where
  "client_count w ip = (case clients w ip of None \<Rightarrow> 0 | Some c \<Rightarrow> c)"

definition rateLimiter :: "env \<Rightarrow> handler \<Rightarrow> handler" where
  "rateLimiter E next req st0 =
     (let clientIP = extractIP E (req_RemoteAddr req);
          st1 = emit [Lock clientsMux, ClientsGet clientIP] st0;
          count = client_count (snd st1) clientIP;
          st2 = logEvent (ClientHasMade clientIP count) st1
      in
      if count \<ge> maxRequestsPerMinute
      then logEvent (RateLimitExceeded clientIP)
             (http_Error ''Too Many Requests'' 429 (emit [Unlock clientsMux] st2))
      else
        next req
          (emit [ClientsPut clientIP, Unlock clientsMux]
             (set_clients ((clients (snd st2))(clientIP \<mapsto> count + 1)) st2)))"

text \<open>
  One turn of the endless loop of \<^verbatim>\<open>resetRateLimiter\<close>: sleep a minute, then, under the
  lock, \<^verbatim>\<open>clients = make(map[string]int)\<close>.
\<close>

definition resetRateLimiter_turn :: "world \<Rightarrow> world" where
  "resetRateLimiter_turn w =
     w\<lparr>clients := Map.empty,
       trace := trace w @ [Sleep, Lock clientsMux, ClientsReplace, Unlock clientsMux]\<rparr>"

text \<open>The loop itself, for the windows that have elapsed so far.\<close>

fun resetRateLimiter :: "nat \<Rightarrow> world \<Rightarrow> world" where
  "resetRateLimiter 0 w = w"
| "resetRateLimiter (Suc n) w = resetRateLimiter n (resetRateLimiter_turn w)"

subsection \<open>\<^verbatim>\<open>main\<close>: the routes and the server\<close>

datatype handler_name = HandleRequestAndCache | HandleConnect

text \<open>
  \<^verbatim>\<open>http.HandleFunc("/", rateLimiter(handleRequestAndCache))\<close> and
  \<^verbatim>\<open>http.HandleFunc("/CONNECT", rateLimiter(handleConnect))\<close>.
\<close>

definition routes :: "(string \<times> handler_name) list" where
  "routes = [(''/'', HandleRequestAndCache), (''/CONNECT'', HandleConnect)]"

text \<open>
  The match of the default \<^verbatim>\<open>ServeMux\<close> of net/http, for patterns without host and
  method: a pattern that ends in a slash matches every path it is a prefix of, any
  other pattern matches the equal path only, and the longest matching pattern wins.
  The match is on the path alone. Before it, the mux cleans the path of a request
  whose method is not CONNECT (an empty path, a doubled slash, a dot segment) and
  answers with a redirect when that changes the path; such a request reaches no
  handler and no rate limiter. That step is not modelled: \<open>req_URL_Path\<close> is a path
  that the mux passes on to the match as it is, which for CONNECT is every path.
\<close>

definition pattern_matches :: "string \<Rightarrow> string \<Rightarrow> bool" where
  "pattern_matches pat path =
     (if pat \<noteq> [] \<and> last pat = CHR ''/'' then prefix pat path else pat = path)"

fun longest :: "(string \<times> 'h) list \<Rightarrow> (string \<times> 'h) option" where
  "longest [] = None"
| "longest (r # rs) =
     (case longest rs of
        None \<Rightarrow> Some r
      | Some r' \<Rightarrow> if length (fst r') > length (fst r) then Some r' else Some r)"

definition mux_match :: "(string \<times> 'h) list \<Rightarrow> string \<Rightarrow> 'h option" where
  "mux_match rs path = map_option snd (longest (filter (\<lambda>r. pattern_matches (fst r) path) rs))"

definition dispatch :: "request \<Rightarrow> handler_name option" where
  "dispatch req = mux_match routes (req_URL_Path req)"

definition http_NotFound :: "state \<Rightarrow> state" where
  "http_NotFound = http_Error ''404 page not found'' 404"

definition serve :: "env \<Rightarrow> handler" where
  "serve E req st =
     (case dispatch req of
        None \<Rightarrow> http_NotFound st
      | Some HandleRequestAndCache \<Rightarrow> rateLimiter E (handleRequestAndCache E) req st
      | Some HandleConnect \<Rightarrow> rateLimiter E (handleConnect E) req st)"

text \<open>
  The process: requests served one after the other, each with the writer the server
  made for it and the answers of the outside during it, and window resets in between.
\<close>

datatype action = Request env response_writer request | WindowReset

fun step :: "world \<Rightarrow> action \<Rightarrow> world" where
  "step w (Request E res req) = snd (serve E req (res, w))"
| "step w WindowReset = resetRateLimiter_turn w"

definition run :: "world \<Rightarrow> action list \<Rightarrow> world" where
  "run w acts = foldl step w acts"

definition init_world :: world where
  "init_world = \<lparr>cache = Map.empty, clients = Map.empty, trace = []\<rparr>"

text \<open>The writer the server hands to a handler: nothing set, nothing sent.\<close>

definition new_response_writer :: "bool \<Rightarrow> response_writer" where
  "new_response_writer hj =
     \<lparr>rw_header = Map.empty, rw_wroteHeader = False, rw_status = 0,
      rw_sent_header = Map.empty, rw_body = [], rw_hijacker = hj, rw_hijacked = False,
      rw_panicked = False\<rparr>"


subsection \<open>Requests of one client; example inputs\<close>

text \<open>A request of the client \<open>ip\<close> that the routes give to a handler.\<close>

definition request_from :: "string \<Rightarrow> action \<Rightarrow> bool" where
  "request_from ip a =
     (case a of
        Request E res req \<Rightarrow> extractIP E (req_RemoteAddr req) = ip \<and> dispatch req \<noteq> None
      | WindowReset \<Rightarrow> False)"

text \<open>
  An outside where everything succeeds: the upstream answers 404 with one header and
  the body \<open>hello\<close>.
\<close>

definition env0 :: env where
  "env0 =
     \<lparr>net_SplitHostPort =
        (\<lambda>s. if s = ''10.0.0.1:5555'' then Some (''10.0.0.1'', ''5555'') else None),
      url_Parse = (\<lambda>s. Some (URL s)),
      http_NewRequest_ok = (\<lambda>m u. True),
      client_Do =
        (\<lambda>p. Some \<lparr>up_StatusCode = 404,
                     up_Header = [(''Content-Type'', [''text/html''])],
                     up_Body = Some ''hello''\<rparr>),
      net_Dial = (\<lambda>h. True),
      hijack_ok = True,
      other_cache_writes = (\<lambda>c. c)\<rparr>"

definition req0 :: request where
  "req0 =
     \<lparr>req_Method = ''GET'', req_RequestURI = ''http://example.com/'',
      req_Host = ''example.com'', req_RemoteAddr = ''10.0.0.1:5555'',
      req_URL_Path = ''/'', req_Header = [(''Accept'', [''*/*''])], req_Body = []\<rparr>"



text \<open>A window in which the client 10.0.0.1 has used its sixty requests.\<close>

definition full_world :: world where
  "full_world = \<lparr>cache = Map.empty, clients = [''10.0.0.1'' \<mapsto> 60], trace = []\<rparr>"

text \<open>A cache that holds a body for the URL of \<open>req0\<close>.\<close>

definition hit_world :: world where
  "hit_world =
     \<lparr>cache = [cacheKey (URL ''http://example.com/'') \<mapsto> ''cached body''],
      clients = Map.empty, trace = []\<rparr>"

text \<open>
  The failures of \<^verbatim>\<open>handleRequestAndCache\<close> that answer with an error: the URL does not
  parse, or, on a miss, the upstream round trip or the read of its body fails.
\<close>

definition request_fails :: "env \<Rightarrow> request \<Rightarrow> (string \<rightharpoonup> string) \<Rightarrow> bool" where
  "request_fails E req c =
     (case url_Parse E (req_RequestURI (normalise_RequestURI req)) of
        None \<Rightarrow> True
      | Some u \<Rightarrow>
          (case c (cacheKey u) of
             Some b \<Rightarrow> False
           | None \<Rightarrow>
               http_NewRequest_ok E (req_Method req) (url_String u) \<and>
               (case client_Do E \<lparr>preq_Method = req_Method req, preq_URL = url_String u,
                                   preq_Header = copy_header (req_Header req) Map.empty,
                                   preq_Body = req_Body req\<rparr> of
                  None \<Rightarrow> True
                | Some resp \<Rightarrow> up_Body resp = None)))"

text \<open>
  A CONNECT request as a client sends it, \<^verbatim>\<open>CONNECT example.com:443 HTTP/1.1\<close>: the target
  is an authority, and the URL that net/http parses from it has an empty path.
\<close>

definition connect_req :: request where
  "connect_req =
     \<lparr>req_Method = ''CONNECT'', req_RequestURI = ''example.com:443'',
      req_Host = ''example.com:443'', req_RemoteAddr = ''10.0.0.1:5555'',
      req_URL_Path = [], req_Header = [], req_Body = []\<rparr>"

text \<open>URLs that differ in the query string only: \<open>q=\<close>, \<open>q=a\<close>, \<open>q=aa\<close>, ...\<close>

definition query_url :: "nat \<Rightarrow> url" where
  "query_url n = URL (''http://example.com/?q='' @ replicate n CHR ''a'')"

subsection \<open>Input and output between a lock and its release\<close>

text \<open>
  The events that read or write a file, a socket or the console; the others only
  touch the two maps and the locks, or wait.
\<close>

fun is_io :: "event \<Rightarrow> bool" where
  "is_io (LogPrintf m) = True"
| "is_io (LogFileWrite m) = True"
| "is_io (SendHeader c) = True"
| "is_io (SendInformational c) = True"
| "is_io (SendBody b) = True"
| "is_io (UpstreamDo p) = True"
| "is_io ReadAllBody = True"
| "is_io CloseBody = True"
| "is_io (NetDial h) = True"
| "is_io Hijack = True"
| "is_io TunnelCopy = True"
| "is_io CloseClientConn = True"
| "is_io CloseDestConn = True"
| "is_io e = False"

text \<open>
  A trace keeps the rule when none of its input or output events comes while
  \<open>cacheMutex\<close> or \<open>clientsMux\<close> is held; \<open>held\<close> are the locks held so far.
\<close>

fun no_io_while_locked :: "mutex list \<Rightarrow> event list \<Rightarrow> bool" where
  "no_io_while_locked held [] = True"
| "no_io_while_locked held (Lock m # es) = no_io_while_locked (m # held) es"
| "no_io_while_locked held (Unlock m # es) = no_io_while_locked (removeAll m held) es"
| "no_io_while_locked held (e # es) =
     (if is_io e \<and> (cacheMutex \<in> set held \<or> clientsMux \<in> set held) then False
      else no_io_while_locked held es)"

section \<open>Properties\<close>

subsection \<open>What each operation leaves alone\<close>

lemma emit_simps [simp]:
  "fst (emit es st) = fst st"
  "cache (snd (emit es st)) = cache (snd st)"
  "clients (snd (emit es st)) = clients (snd st)"
  "trace (snd (emit es st)) = trace (snd st) @ es"
  by (cases st; simp)+

lemma logEvent_simps [simp]:
  "fst (logEvent msg st) = fst st"
  "cache (snd (logEvent msg st)) = cache (snd st)"
  "clients (snd (logEvent msg st)) = clients (snd st)"
  by (simp_all add: logEvent_def log_events_def)

lemma rw_WriteHeader_globals [simp]:
  "cache (snd (rw_WriteHeader code st)) = cache (snd st)"
  "clients (snd (rw_WriteHeader code st)) = clients (snd st)"
  by (cases st; simp)+

lemma rw_Write_globals [simp]:
  "cache (snd (rw_Write b st)) = cache (snd st)"
  "clients (snd (rw_Write b st)) = clients (snd st)"
  by (cases st; simp split: prod.splits)+

lemma rw_set_header_globals [simp]:
  "snd (rw_set_header f st) = snd st"
  by (cases st) simp

lemma http_Error_globals [simp]:
  "cache (snd (http_Error msg code st)) = cache (snd st)"
  "clients (snd (http_Error msg code st)) = clients (snd st)"
  by (simp_all add: http_Error_def Let_def)

lemma set_cache_simps [simp]:
  "fst (set_cache c st) = fst st"
  "cache (snd (set_cache c st)) = c"
  "clients (snd (set_cache c st)) = clients (snd st)"
  "trace (snd (set_cache c st)) = trace (snd st)"
  by (cases st; simp)+

lemma set_clients_simps [simp]:
  "fst (set_clients c st) = fst st"
  "cache (snd (set_clients c st)) = cache (snd st)"
  "clients (snd (set_clients c st)) = c"
  "trace (snd (set_clients c st)) = trace (snd st)"
  by (cases st; simp)+

lemma handleRequestAndCache_clients:
  "clients (snd (handleRequestAndCache E req st)) = clients (snd st)"
  by (simp add: handleRequestAndCache_def Let_def split: option.splits)

lemma handleConnect_clients:
  "clients (snd (handleConnect E req st)) = clients (snd st)"
  by (simp add: handleConnect_def Let_def)

lemma http_NotFound_clients:
  "clients (snd (http_NotFound st)) = clients (snd st)"
  by (simp add: http_NotFound_def)


lemma rw_WriteHeader_fresh:
  "\<not> rw_wroteHeader (fst st) \<Longrightarrow> checkWriteHeaderCode code \<Longrightarrow> \<not> informational code \<Longrightarrow>
     rw_status (fst (rw_WriteHeader code st)) = code \<and>
     rw_wroteHeader (fst (rw_WriteHeader code st)) \<and>
     rw_sent_header (fst (rw_WriteHeader code st)) = rw_header (fst st) \<and>
     rw_header (fst (rw_WriteHeader code st)) = rw_header (fst st) \<and>
     rw_body (fst (rw_WriteHeader code st)) = rw_body (fst st)"
  by (cases st) simp

lemma rw_WriteHeader_superfluous:
  "rw_wroteHeader (fst st) \<Longrightarrow> rw_WriteHeader code st = st"
  by (cases st) simp

lemma rw_WriteHeader_wrote [simp]:
  "checkWriteHeaderCode code \<Longrightarrow> \<not> informational code \<Longrightarrow>
     rw_wroteHeader (fst (rw_WriteHeader code st))"
  by (cases st) simp

lemma final_code_200 [simp]: "checkWriteHeaderCode 200" "\<not> informational 200"
  by (simp_all add: checkWriteHeaderCode_def informational_def)

lemma rw_Write_after_header:
  "rw_wroteHeader (fst st) \<Longrightarrow>
     rw_status (fst (rw_Write b st)) = rw_status (fst st) \<and>
     rw_sent_header (fst (rw_Write b st)) = rw_sent_header (fst st) \<and>
     rw_body (fst (rw_Write b st)) = rw_body (fst st) @ b \<and>
     rw_wroteHeader (fst (rw_Write b st))"
  by (cases st) simp

lemma rw_Write_fresh:
  "\<not> rw_wroteHeader (fst st) \<Longrightarrow>
     rw_status (fst (rw_Write b st)) = 200 \<and>
     rw_sent_header (fst (rw_Write b st)) = rw_header (fst st) \<and>
     rw_body (fst (rw_Write b st)) = rw_body (fst st) @ b \<and>
     rw_wroteHeader (fst (rw_Write b st))"
  by (cases st) simp

lemma rw_set_header_fst [simp]:
  "rw_wroteHeader (fst (rw_set_header f st)) = rw_wroteHeader (fst st)"
  "rw_status (fst (rw_set_header f st)) = rw_status (fst st)"
  "rw_body (fst (rw_set_header f st)) = rw_body (fst st)"
  "rw_sent_header (fst (rw_set_header f st)) = rw_sent_header (fst st)"
  "rw_header (fst (rw_set_header f st)) = f (rw_header (fst st))"
  "rw_hijacker (fst (rw_set_header f st)) = rw_hijacker (fst st)"
  by (cases st; simp)+

lemma http_Error_fresh:
  assumes "\<not> rw_wroteHeader (fst st)" and "200 \<le> code" and "code \<le> 999"
  shows "rw_status (fst (http_Error msg code st)) = code"
    and "rw_body (fst (http_Error msg code st)) = rw_body (fst st) @ msg @ [CHR 0x0A]"
    and "rw_wroteHeader (fst (http_Error msg code st))"
  using assms
  by (simp_all add: http_Error_def Let_def WriteHeader_panics_def checkWriteHeaderCode_def
        informational_def rw_Write_after_header rw_WriteHeader_fresh)

lemma http_Error_after_header:
  assumes "rw_wroteHeader (fst st)"
  shows "rw_status (fst (http_Error msg code st)) = rw_status (fst st)"
    and "rw_body (fst (http_Error msg code st)) = rw_body (fst st) @ msg @ [CHR 0x0A]"
    and "rw_sent_header (fst (http_Error msg code st)) = rw_sent_header (fst st)"
  using assms
  by (simp_all add: http_Error_def Let_def WriteHeader_panics_def rw_Write_after_header
        rw_WriteHeader_superfluous)

lemma rateLimiter_clients:
  assumes "\<And>r s. clients (snd (next r s)) = clients (snd s)"
  shows "clients (snd (rateLimiter E next req st)) =
           (if client_count (snd st) (extractIP E (req_RemoteAddr req)) < 60
            then (clients (snd st))(extractIP E (req_RemoteAddr req) \<mapsto>
                    client_count (snd st) (extractIP E (req_RemoteAddr req)) + 1)
            else clients (snd st))"
  by (simp add: rateLimiter_def Let_def maxRequestsPerMinute_def client_count_def assms)

lemma serve_clients:
  "clients (snd (serve E req st)) =
     (if dispatch req \<noteq> None \<and> client_count (snd st) (extractIP E (req_RemoteAddr req)) < 60
      then (clients (snd st))(extractIP E (req_RemoteAddr req) \<mapsto>
              client_count (snd st) (extractIP E (req_RemoteAddr req)) + 1)
      else clients (snd st))"
  by (simp add: serve_def rateLimiter_clients handleRequestAndCache_clients
        handleConnect_clients http_NotFound_clients
      split: option.splits handler_name.splits)

lemma step_request_from:
  assumes "request_from ip a"
  shows "client_count (step w a) ip =
           (if client_count w ip < 60 then client_count w ip + 1 else client_count w ip)"
proof (cases a)
  case (Request E res req)
  with assms have ip: "extractIP E (req_RemoteAddr req) = ip" and d: "dispatch req \<noteq> None"
    by (simp_all add: request_from_def)
  have "clients (step w a) =
          (if client_count w ip < 60 then (clients w)(ip \<mapsto> client_count w ip + 1)
           else clients w)"
    using ip d by (simp add: Request serve_clients)
  then show ?thesis
    by (simp add: client_count_def)
next
  case WindowReset
  with assms show ?thesis by (simp add: request_from_def)
qed

lemma run_requests_from:
  assumes "\<forall>a \<in> set acts. request_from ip a" and "client_count w ip \<le> 60"
  shows "client_count (run w acts) ip = min 60 (client_count w ip + int (length acts))"
  using assms
proof (induction acts arbitrary: w)
  case Nil
  then show ?case by (simp add: run_def)
next
  case (Cons a acts)
  have a: "request_from ip a" and rest: "\<forall>a \<in> set acts. request_from ip a"
    using Cons.prems(1) by simp_all
  have s: "client_count (step w a) ip =
             (if client_count w ip < 60 then client_count w ip + 1 else client_count w ip)"
    by (rule step_request_from [OF a])
  have le: "client_count (step w a) ip \<le> 60"
    using s Cons.prems(2) by (simp split: if_splits)
  have "client_count (run (step w a) acts) ip =
          min 60 (client_count (step w a) ip + int (length acts))"
    by (rule Cons.IH [OF rest le])
  then show ?case
    using s Cons.prems(2) by (simp add: run_def split: if_splits)
qed


lemma dispatch_req0: "dispatch req0 = Some HandleRequestAndCache"
  by (simp add: dispatch_def mux_match_def routes_def pattern_matches_def req0_def)

lemma extractIP_req0: "extractIP env0 (req_RemoteAddr req0) = ''10.0.0.1''"
  by (simp add: extractIP_def env0_def req0_def)

subsection \<open>The rate limiter\<close>

text \<open>
  C2. For the client IP of a request: when that IP's counter is below the ceiling of 60,
  the request is admitted: the downstream handler is invoked, on globals in which the
  counter is already one higher. When the counter is at or above 60, the request is
  rejected: the result does not mention the downstream handler, the counters are
  unchanged, and a fresh response writer carries the status 429. Hence, with no window
  reset in between, the first sixty routed requests of a client whose counter is zero
  are the ones admitted: after N of them the counter is N up to sixty, and it stays at
  sixty however many follow.
\<close>

theorem rateLimiter_admits_below_ceiling_rejects_at_ceiling:
  "(client_count w (extractIP E (req_RemoteAddr req)) < 60 \<longrightarrow>
      rateLimiter E next req (res, w) =
        next req
          (res,
           w\<lparr>clients := (clients w)(extractIP E (req_RemoteAddr req) \<mapsto>
                           client_count w (extractIP E (req_RemoteAddr req)) + 1),
             trace := trace w @
               [Lock clientsMux, ClientsGet (extractIP E (req_RemoteAddr req)),
                Lock logFileMutex,
                LogPrintf (ClientHasMade (extractIP E (req_RemoteAddr req))
                             (client_count w (extractIP E (req_RemoteAddr req)))),
                LogFileWrite (ClientHasMade (extractIP E (req_RemoteAddr req))
                                (client_count w (extractIP E (req_RemoteAddr req)))),
                Unlock logFileMutex,
                ClientsPut (extractIP E (req_RemoteAddr req)), Unlock clientsMux]\<rparr>))
   \<and> (60 \<le> client_count w (extractIP E (req_RemoteAddr req)) \<longrightarrow>
        rateLimiter E next req (res, w) =
          logEvent (RateLimitExceeded (extractIP E (req_RemoteAddr req)))
            (http_Error ''Too Many Requests'' 429
               (emit [Unlock clientsMux]
                  (logEvent (ClientHasMade (extractIP E (req_RemoteAddr req))
                               (client_count w (extractIP E (req_RemoteAddr req))))
                     (emit [Lock clientsMux, ClientsGet (extractIP E (req_RemoteAddr req))]
                        (res, w)))))
        \<and> clients (snd (rateLimiter E next req (res, w))) = clients w
        \<and> cache (snd (rateLimiter E next req (res, w))) = cache w
        \<and> (\<not> rw_wroteHeader res \<longrightarrow>
             rw_status (fst (rateLimiter E next req (res, w))) = 429
             \<and> rw_body (fst (rateLimiter E next req (res, w))) =
                 rw_body res @ ''Too Many Requests'' @ [CHR 0x0A]))
   \<and> ((\<forall>a \<in> set acts. request_from ip a) \<and> client_count w0 ip = 0 \<longrightarrow>
        client_count (run w0 acts) ip = min 60 (int (length acts)))"
proof (intro conjI impI)
  assume "(\<forall>a \<in> set acts. request_from ip a) \<and> client_count w0 ip = 0"
  then show "client_count (run w0 acts) ip = min 60 (int (length acts))"
    using run_requests_from [of acts ip w0] by simp
qed (simp_all add: rateLimiter_def Let_def maxRequestsPerMinute_def client_count_def
       logEvent_def log_events_def http_Error_fresh)

theorem rateLimiter_gate_witness:
  "client_count init_world (extractIP env0 (req_RemoteAddr req0)) < 60
   \<and> clients (snd (rateLimiter env0 (\<lambda>r s. s) req0 (new_response_writer True, init_world)))
       = [''10.0.0.1'' \<mapsto> 1]
   \<and> 60 \<le> client_count full_world (extractIP env0 (req_RemoteAddr req0))
   \<and> \<not> rw_wroteHeader (new_response_writer True)
   \<and> rw_status (fst (rateLimiter env0 (\<lambda>r s. s) req0 (new_response_writer True, full_world))) = 429
   \<and> clients (snd (rateLimiter env0 (\<lambda>r s. s) req0 (new_response_writer True, full_world)))
       = clients full_world
   \<and> list_all (request_from ''10.0.0.1'')
        (replicate 61 (Request env0 (new_response_writer True) req0))
   \<and> client_count init_world ''10.0.0.1'' = 0
   \<and> client_count (run init_world (replicate 61 (Request env0 (new_response_writer True) req0)))
        ''10.0.0.1'' = 60"
  using rateLimiter_admits_below_ceiling_rejects_at_ceiling
          [where w = init_world and E = env0 and req = req0 and res = "new_response_writer True"
             and ?next = "\<lambda>r s. s" and ip = "''10.0.0.1''" and ?w0.0 = init_world
             and acts = "replicate 61 (Request env0 (new_response_writer True) req0)"]
        rateLimiter_admits_below_ceiling_rejects_at_ceiling
          [where w = full_world and E = env0 and req = req0 and res = "new_response_writer True"
             and ?next = "\<lambda>r s. s" and ip = "''10.0.0.1''" and ?w0.0 = init_world and acts = "[]"]
  by (simp add: extractIP_req0 dispatch_req0 request_from_def client_count_def init_world_def
        full_world_def new_response_writer_def list_all_iff http_Error_fresh)

subsection \<open>The window reset and the ceiling\<close>

lemma resetRateLimiter_clients:
  "clients (resetRateLimiter n w) = (if n = 0 then clients w else Map.empty)"
proof (induction n arbitrary: w)
  case 0
  show ?case by simp
next
  case (Suc n)
  show ?case by (simp add: Suc.IH resetRateLimiter_turn_def)
qed

lemma step_clients_cases:
  "clients (step w a) = clients w
   \<or> clients (step w a) = Map.empty
   \<or> (\<exists>ip. client_count w ip < 60 \<and> clients (step w a) = (clients w)(ip \<mapsto> client_count w ip + 1))"
proof (cases a)
  case (Request E res req)
  then show ?thesis
    by (auto simp add: serve_clients)
next
  case WindowReset
  then show ?thesis by (simp add: resetRateLimiter_turn_def)
qed

lemma step_counts_bounded:
  assumes "\<forall>ip c. clients w ip = Some c \<longrightarrow> c \<le> 60"
  shows "\<forall>ip c. clients (step w a) ip = Some c \<longrightarrow> c \<le> 60"
  using step_clients_cases [of w a] assms
  by (auto split: if_splits)

lemma run_counts_bounded:
  assumes "\<forall>ip c. clients w ip = Some c \<longrightarrow> c \<le> 60"
  shows "\<forall>ip c. clients (run w acts) ip = Some c \<longrightarrow> c \<le> 60"
  using assms
proof (induction acts arbitrary: w)
  case Nil
  then show ?case by (simp add: run_def)
next
  case (Cons a acts)
  have "\<forall>ip c. clients (step w a) ip = Some c \<longrightarrow> c \<le> 60"
    by (rule step_counts_bounded [OF Cons.prems])
  then have "\<forall>ip c. clients (run (step w a) acts) ip = Some c \<longrightarrow> c \<le> 60"
    by (rule Cons.IH)
  then show ?case by (simp add: run_def)
qed

text \<open>
  C8. One turn of the reset loop replaces the whole counter map by the empty one, in one
  section between locking and unlocking \<open>clientsMux\<close>: afterwards no IP has an entry and
  every IP's count reads zero, whatever the counts were; the cache is not touched. So a
  client that was at the ceiling, and whose request was rejected with 429, is admitted
  by the first request after the reset, which sets its counter to one.
\<close>

theorem resetRateLimiter_turn_clears_every_counter:
  "clients (resetRateLimiter_turn w) = Map.empty
   \<and> dom (clients (resetRateLimiter_turn w)) = {}
   \<and> (\<forall>ip. client_count (resetRateLimiter_turn w) ip = 0)
   \<and> cache (resetRateLimiter_turn w) = cache w
   \<and> trace (resetRateLimiter_turn w) =
       trace w @ [Sleep, Lock clientsMux, ClientsReplace, Unlock clientsMux]
   \<and> clients (resetRateLimiter (Suc n) w) = Map.empty
   \<and> (60 \<le> client_count w (extractIP E (req_RemoteAddr req)) \<and> \<not> rw_wroteHeader res \<longrightarrow>
        rw_status (fst (rateLimiter E next req (res, w))) = 429
        \<and> clients (snd (rateLimiter E next req (res, w))) = clients w
        \<and> rateLimiter E next req (res, resetRateLimiter_turn w) =
            next req
              (res,
               w\<lparr>clients := [extractIP E (req_RemoteAddr req) \<mapsto> 1],
                 trace := trace w @
                   [Sleep, Lock clientsMux, ClientsReplace, Unlock clientsMux,
                    Lock clientsMux, ClientsGet (extractIP E (req_RemoteAddr req)),
                    Lock logFileMutex,
                    LogPrintf (ClientHasMade (extractIP E (req_RemoteAddr req)) 0),
                    LogFileWrite (ClientHasMade (extractIP E (req_RemoteAddr req)) 0),
                    Unlock logFileMutex,
                    ClientsPut (extractIP E (req_RemoteAddr req)), Unlock clientsMux]\<rparr>))"
proof -
  have turn: "clients (resetRateLimiter_turn w) = Map.empty"
    by (simp add: resetRateLimiter_turn_def)
  have loop: "clients (resetRateLimiter (Suc n) w) = Map.empty"
    by (simp add: resetRateLimiter_clients resetRateLimiter_turn_def)
  have rejected: "rw_status (fst (rateLimiter E next req (res, w))) = 429
      \<and> clients (snd (rateLimiter E next req (res, w))) = clients w"
    if "60 \<le> client_count w (extractIP E (req_RemoteAddr req))" and "\<not> rw_wroteHeader res"
    using that
    by (simp add: rateLimiter_def Let_def maxRequestsPerMinute_def client_count_def
          http_Error_fresh)
  have admitted: "rateLimiter E next req (res, resetRateLimiter_turn w) =
            next req
              (res,
               w\<lparr>clients := [extractIP E (req_RemoteAddr req) \<mapsto> 1],
                 trace := trace w @
                   [Sleep, Lock clientsMux, ClientsReplace, Unlock clientsMux,
                    Lock clientsMux, ClientsGet (extractIP E (req_RemoteAddr req)),
                    Lock logFileMutex,
                    LogPrintf (ClientHasMade (extractIP E (req_RemoteAddr req)) 0),
                    LogFileWrite (ClientHasMade (extractIP E (req_RemoteAddr req)) 0),
                    Unlock logFileMutex,
                    ClientsPut (extractIP E (req_RemoteAddr req)), Unlock clientsMux]\<rparr>)"
    by (simp add: rateLimiter_def Let_def maxRequestsPerMinute_def client_count_def
          logEvent_def log_events_def resetRateLimiter_turn_def)
  show ?thesis
    using turn loop rejected admitted
    by (simp add: client_count_def resetRateLimiter_turn_def)
qed

theorem resetRateLimiter_turn_witness:
  "60 \<le> client_count full_world (extractIP env0 (req_RemoteAddr req0))
   \<and> \<not> rw_wroteHeader (new_response_writer True)
   \<and> rw_status (fst (rateLimiter env0 (\<lambda>r s. s) req0 (new_response_writer True, full_world))) = 429
   \<and> clients (snd (rateLimiter env0 (\<lambda>r s. s) req0
                     (new_response_writer True, resetRateLimiter_turn full_world)))
       = [''10.0.0.1'' \<mapsto> 1]"
  using resetRateLimiter_turn_clears_every_counter
          [where w = full_world and E = env0 and req = req0 and res = "new_response_writer True"
             and ?next = "\<lambda>r s. s" and n = 0]
  by (simp add: extractIP_req0 client_count_def full_world_def new_response_writer_def)

text \<open>
  C10. No stored counter exceeds the ceiling of 60: this holds of the empty map the
  process starts with, every operation keeps it (a request, whichever handler it is
  routed to, admitted or rejected, and a window reset), and so it holds after any
  sequence of them.
\<close>

theorem stored_counts_never_exceed_ceiling:
  "(\<forall>ip c. clients init_world ip = Some c \<longrightarrow> c \<le> maxRequestsPerMinute)
   \<and> ((\<forall>ip c. clients w ip = Some c \<longrightarrow> c \<le> maxRequestsPerMinute) \<longrightarrow>
        (\<forall>ip c. clients (step w a) ip = Some c \<longrightarrow> c \<le> maxRequestsPerMinute))
   \<and> (\<forall>ip c. clients (run init_world acts) ip = Some c \<longrightarrow> c \<le> maxRequestsPerMinute)"
proof -
  have init: "\<forall>ip c. clients init_world ip = Some c \<longrightarrow> c \<le> 60"
    by (simp add: init_world_def)
  have "\<forall>ip c. clients (run init_world acts) ip = Some c \<longrightarrow> c \<le> 60"
    by (rule run_counts_bounded [OF init])
  then show ?thesis
    using init step_counts_bounded [of w a]
    by (simp add: maxRequestsPerMinute_def)
qed

theorem stored_counts_witness:
  "clients full_world ''10.0.0.1'' = Some 60
   \<and> clients (step full_world (Request env0 (new_response_writer True) req0)) ''10.0.0.1''
       = Some 60
   \<and> clients (run init_world [Request env0 (new_response_writer True) req0, WindowReset,
                               Request env0 (new_response_writer True) req0,
                               Request env0 (new_response_writer True) req0]) ''10.0.0.1''
       = Some 2
   \<and> (2::int) \<le> maxRequestsPerMinute"
  using stored_counts_never_exceed_ceiling
          [where w = full_world and a = "Request env0 (new_response_writer True) req0"
             and acts = "[Request env0 (new_response_writer True) req0, WindowReset,
                          Request env0 (new_response_writer True) req0,
                          Request env0 (new_response_writer True) req0]"]
  by (simp add: run_def serve_clients extractIP_req0 dispatch_req0 client_count_def
        init_world_def full_world_def resetRateLimiter_turn_def maxRequestsPerMinute_def)

subsection \<open>The cache: hit and miss\<close>

lemma logEvent_trace [simp]:
  "trace (snd (logEvent msg st)) = trace (snd st) @ log_events msg"
  by (simp add: logEvent_def)

lemma rw_WriteHeader_trace:
  "trace (snd (rw_WriteHeader code st)) =
     trace (snd st) @
       (if rw_wroteHeader (fst st) then []
        else if \<not> checkWriteHeaderCode code then [Panic]
        else if informational code then [SendInformational code]
        else [SendHeader code])"
  by (cases st) simp

lemma rw_Write_trace:
  "trace (snd (rw_Write b st)) =
     trace (snd st) @ (if rw_wroteHeader (fst st) then [] else [SendHeader 200]) @ [SendBody b]"
  by (cases st) simp

lemma rw_Write_header [simp]:
  "rw_header (fst (rw_Write b st)) = rw_header (fst st)"
  "rw_hijacker (fst (rw_Write b st)) = rw_hijacker (fst st)"
  by (cases st; simp)+

lemma http_Error_trace:
  assumes "200 \<le> code" and "code \<le> 999"
  shows "trace (snd (http_Error msg code st)) =
     trace (snd st) @ (if rw_wroteHeader (fst st) then [] else [SendHeader code])
       @ [SendBody (msg @ [CHR 0x0A])]"
  using assms
  by (simp add: http_Error_def Let_def WriteHeader_panics_def checkWriteHeaderCode_def
        informational_def rw_Write_trace rw_WriteHeader_trace)

lemma handleRequestAndCache_hit:
  assumes "url_Parse E (req_RequestURI (normalise_RequestURI req)) = Some u"
    and "cache w (cacheKey u) = Some body"
  shows "handleRequestAndCache E req (res, w) =
           logEvent (Served (req_RequestURI (normalise_RequestURI req)))
             (rw_Write body
                (logEvent (CacheHit (req_RequestURI (normalise_RequestURI req)))
                   (emit [Lock cacheMutex, CacheGet (cacheKey u), Unlock cacheMutex] (res, w))))"
  using assms by (simp add: handleRequestAndCache_def Let_def)


lemma normalise_RequestURI_fields [simp]:
  "req_Method (normalise_RequestURI req) = req_Method req"
  "req_Host (normalise_RequestURI req) = req_Host req"
  "req_Header (normalise_RequestURI req) = req_Header req"
  "req_Body (normalise_RequestURI req) = req_Body req"
  "req_RemoteAddr (normalise_RequestURI req) = req_RemoteAddr req"
  by (simp_all add: normalise_RequestURI_def)



text \<open>
  C3. A request whose digest is in the cache when it is looked up: the stored bytes are
  appended to the response body as they are, a fresh response gets the default status
  200, the header map is the one the handler was given (nothing of an upstream response
  is added to it), cache and counters are unchanged, and the events are the lookup
  under the cache lock, the two log lines and the write: the upstream is not asked,
  whatever it would have answered.
\<close>

theorem cache_hit_writes_stored_body_only:
  "url_Parse E (req_RequestURI (normalise_RequestURI req)) = Some u
   \<and> cache w (cacheKey u) = Some body \<and> \<not> rw_wroteHeader res \<longrightarrow>
     rw_body (fst (handleRequestAndCache E req (res, w))) = rw_body res @ body
     \<and> rw_status (fst (handleRequestAndCache E req (res, w))) = 200
     \<and> rw_sent_header (fst (handleRequestAndCache E req (res, w))) = rw_header res
     \<and> rw_header (fst (handleRequestAndCache E req (res, w))) = rw_header res
     \<and> cache (snd (handleRequestAndCache E req (res, w))) = cache w
     \<and> clients (snd (handleRequestAndCache E req (res, w))) = clients w
     \<and> trace (snd (handleRequestAndCache E req (res, w))) =
         trace w @ [Lock cacheMutex, CacheGet (cacheKey u), Unlock cacheMutex]
           @ log_events (CacheHit (req_RequestURI (normalise_RequestURI req)))
           @ [SendHeader 200, SendBody body]
           @ log_events (Served (req_RequestURI (normalise_RequestURI req)))
     \<and> handleRequestAndCache (E\<lparr>client_Do := upstream\<rparr>) req (res, w) =
         handleRequestAndCache E req (res, w)"
proof (intro impI, elim conjE)
  assume p: "url_Parse E (req_RequestURI (normalise_RequestURI req)) = Some u"
    and c: "cache w (cacheKey u) = Some body"
    and f: "\<not> rw_wroteHeader res"
  note hit = handleRequestAndCache_hit [OF p c]
  have p': "url_Parse (E\<lparr>client_Do := upstream\<rparr>) (req_RequestURI (normalise_RequestURI req))
              = Some u"
    using p by simp
  show "rw_body (fst (handleRequestAndCache E req (res, w))) = rw_body res @ body
     \<and> rw_status (fst (handleRequestAndCache E req (res, w))) = 200
     \<and> rw_sent_header (fst (handleRequestAndCache E req (res, w))) = rw_header res
     \<and> rw_header (fst (handleRequestAndCache E req (res, w))) = rw_header res
     \<and> cache (snd (handleRequestAndCache E req (res, w))) = cache w
     \<and> clients (snd (handleRequestAndCache E req (res, w))) = clients w
     \<and> trace (snd (handleRequestAndCache E req (res, w))) =
         trace w @ [Lock cacheMutex, CacheGet (cacheKey u), Unlock cacheMutex]
           @ log_events (CacheHit (req_RequestURI (normalise_RequestURI req)))
           @ [SendHeader 200, SendBody body]
           @ log_events (Served (req_RequestURI (normalise_RequestURI req)))
     \<and> handleRequestAndCache (E\<lparr>client_Do := upstream\<rparr>) req (res, w) =
         handleRequestAndCache E req (res, w)"
    using f
    by (simp add: hit handleRequestAndCache_hit [OF p' c] rw_Write_fresh rw_Write_trace)
qed


lemma normalise_req0: "normalise_RequestURI req0 = req0"
  by (simp add: normalise_RequestURI_def req0_def)

theorem cache_hit_witness:
  "url_Parse env0 (req_RequestURI (normalise_RequestURI req0)) = Some (URL ''http://example.com/'')
   \<and> cache hit_world (cacheKey (URL ''http://example.com/'')) = Some ''cached body''
   \<and> \<not> rw_wroteHeader (new_response_writer True)
   \<and> rw_body (fst (handleRequestAndCache env0 req0 (new_response_writer True, hit_world)))
       = ''cached body''
   \<and> rw_status (fst (handleRequestAndCache env0 req0 (new_response_writer True, hit_world)))
       = 200
   \<and> rw_sent_header (fst (handleRequestAndCache env0 req0 (new_response_writer True, hit_world)))
       = Map.empty"
  using cache_hit_writes_stored_body_only
          [where E = env0 and req = req0 and res = "new_response_writer True" and w = hit_world
             and u = "URL ''http://example.com/''" and body = "''cached body''"]
  by (simp add: normalise_req0 hit_world_def new_response_writer_def)
     (simp add: env0_def req0_def)




subsection \<open>Failing requests\<close>

lemma handleRequestAndCache_parse_failure:
  assumes "url_Parse E (req_RequestURI (normalise_RequestURI req)) = None"
  shows "handleRequestAndCache E req st = http_Error ''Bad request'' 400 st"
  using assms by (simp add: handleRequestAndCache_def Let_def)

lemma handleRequestAndCache_forward_failure:
  assumes "url_Parse E (req_RequestURI (normalise_RequestURI req)) = Some u"
    and "cache w (cacheKey u) = None"
    and "http_NewRequest_ok E (req_Method req) (url_String u)"
    and "client_Do E \<lparr>preq_Method = req_Method req, preq_URL = url_String u,
                      preq_Header = copy_header (req_Header req) Map.empty,
                      preq_Body = req_Body req\<rparr> = None"
  shows "handleRequestAndCache E req (res, w) =
           logEvent (FailedForward (req_RequestURI (normalise_RequestURI req)))
             (http_Error ''Failed to forward request'' 500
                (emit [Lock cacheMutex, CacheGet (cacheKey u), Unlock cacheMutex,
                       UpstreamDo \<lparr>preq_Method = req_Method req, preq_URL = url_String u,
                                   preq_Header = copy_header (req_Header req) Map.empty,
                                   preq_Body = req_Body req\<rparr>] (res, w)))"
  using assms by (simp add: handleRequestAndCache_def Let_def)

lemma handleRequestAndCache_read_failure:
  assumes "url_Parse E (req_RequestURI (normalise_RequestURI req)) = Some u"
    and "cache w (cacheKey u) = None"
    and "http_NewRequest_ok E (req_Method req) (url_String u)"
    and "client_Do E \<lparr>preq_Method = req_Method req, preq_URL = url_String u,
                      preq_Header = copy_header (req_Header req) Map.empty,
                      preq_Body = req_Body req\<rparr> = Some resp"
    and "up_Body resp = None"
  shows "handleRequestAndCache E req (res, w) =
           emit [CloseBody]
             (logEvent (FailedReadBody (req_RequestURI (normalise_RequestURI req)))
                (http_Error ''Failed to read response body'' 500
                   (emit [Lock cacheMutex, CacheGet (cacheKey u), Unlock cacheMutex,
                          UpstreamDo \<lparr>preq_Method = req_Method req, preq_URL = url_String u,
                                      preq_Header = copy_header (req_Header req) Map.empty,
                                      preq_Body = req_Body req\<rparr>,
                          ReadAllBody] (res, w))))"
  using assms by (simp add: handleRequestAndCache_def Let_def)


lemma request_fails_cache:
  assumes "request_fails E req (cache (snd st))"
  shows "cache (snd (handleRequestAndCache E req st)) = cache (snd st)"
proof (cases st)
  case (Pair res w)
  show ?thesis
    using assms unfolding Pair
    by (auto simp add: request_fails_def handleRequestAndCache_parse_failure
          handleRequestAndCache_forward_failure handleRequestAndCache_read_failure
        split: option.splits)
qed

text \<open>
  C6. A request that fails: when the URL does not parse, a fresh response gets the
  status 400 and nothing else happens; when the upstream round trip fails, or the read
  of the upstream's body fails, it gets the status 500 and the failure is logged. In
  each case the handler returns with the cache as it was and the counters as it found
  them, and the trace shows at most one upstream round trip: nothing is tried again.
  Behind the rate limiter, the counters differ from those before the request by the
  one increment of the client's counter, and the cache not at all.
\<close>

theorem failing_request_leaves_cache_and_answers_error:
  "(url_Parse E (req_RequestURI (normalise_RequestURI req)) = None \<and> \<not> rw_wroteHeader res \<longrightarrow>
      rw_status (fst (handleRequestAndCache E req (res, w))) = 400
      \<and> rw_body (fst (handleRequestAndCache E req (res, w))) =
          rw_body res @ ''Bad request'' @ [CHR 0x0A]
      \<and> cache (snd (handleRequestAndCache E req (res, w))) = cache w
      \<and> clients (snd (handleRequestAndCache E req (res, w))) = clients w
      \<and> trace (snd (handleRequestAndCache E req (res, w))) =
          trace w @ [SendHeader 400, SendBody (''Bad request'' @ [CHR 0x0A])])
   \<and> (url_Parse E (req_RequestURI (normalise_RequestURI req)) = Some u
       \<and> cache w (cacheKey u) = None
       \<and> http_NewRequest_ok E (req_Method req) (url_String u)
       \<and> client_Do E \<lparr>preq_Method = req_Method req, preq_URL = url_String u,
                        preq_Header = copy_header (req_Header req) Map.empty,
                        preq_Body = req_Body req\<rparr> = None
       \<and> \<not> rw_wroteHeader res \<longrightarrow>
      rw_status (fst (handleRequestAndCache E req (res, w))) = 500
      \<and> rw_body (fst (handleRequestAndCache E req (res, w))) =
          rw_body res @ ''Failed to forward request'' @ [CHR 0x0A]
      \<and> cache (snd (handleRequestAndCache E req (res, w))) = cache w
      \<and> clients (snd (handleRequestAndCache E req (res, w))) = clients w
      \<and> trace (snd (handleRequestAndCache E req (res, w))) =
          trace w @
            [Lock cacheMutex, CacheGet (cacheKey u), Unlock cacheMutex,
             UpstreamDo \<lparr>preq_Method = req_Method req, preq_URL = url_String u,
                         preq_Header = copy_header (req_Header req) Map.empty,
                         preq_Body = req_Body req\<rparr>,
             SendHeader 500, SendBody (''Failed to forward request'' @ [CHR 0x0A])]
            @ log_events (FailedForward (req_RequestURI (normalise_RequestURI req))))
   \<and> (url_Parse E (req_RequestURI (normalise_RequestURI req)) = Some u
       \<and> cache w (cacheKey u) = None
       \<and> http_NewRequest_ok E (req_Method req) (url_String u)
       \<and> client_Do E \<lparr>preq_Method = req_Method req, preq_URL = url_String u,
                        preq_Header = copy_header (req_Header req) Map.empty,
                        preq_Body = req_Body req\<rparr> = Some resp
       \<and> up_Body resp = None
       \<and> \<not> rw_wroteHeader res \<longrightarrow>
      rw_status (fst (handleRequestAndCache E req (res, w))) = 500
      \<and> rw_body (fst (handleRequestAndCache E req (res, w))) =
          rw_body res @ ''Failed to read response body'' @ [CHR 0x0A]
      \<and> cache (snd (handleRequestAndCache E req (res, w))) = cache w
      \<and> clients (snd (handleRequestAndCache E req (res, w))) = clients w
      \<and> trace (snd (handleRequestAndCache E req (res, w))) =
          trace w @
            [Lock cacheMutex, CacheGet (cacheKey u), Unlock cacheMutex,
             UpstreamDo \<lparr>preq_Method = req_Method req, preq_URL = url_String u,
                         preq_Header = copy_header (req_Header req) Map.empty,
                         preq_Body = req_Body req\<rparr>,
             ReadAllBody,
             SendHeader 500, SendBody (''Failed to read response body'' @ [CHR 0x0A])]
            @ log_events (FailedReadBody (req_RequestURI (normalise_RequestURI req)))
            @ [CloseBody])
   \<and> (request_fails E req (cache w)
       \<and> client_count w (extractIP E (req_RemoteAddr req)) < 60 \<longrightarrow>
      cache (snd (rateLimiter E (handleRequestAndCache E) req (res, w))) = cache w
      \<and> clients (snd (rateLimiter E (handleRequestAndCache E) req (res, w))) =
          (clients w)(extractIP E (req_RemoteAddr req) \<mapsto>
             client_count w (extractIP E (req_RemoteAddr req)) + 1))"
proof (intro conjI impI; (elim conjE)?)
  assume "request_fails E req (cache w)"
    and "client_count w (extractIP E (req_RemoteAddr req)) < 60"
  then show "cache (snd (rateLimiter E (handleRequestAndCache E) req (res, w))) = cache w"
    by (simp add: rateLimiter_def Let_def maxRequestsPerMinute_def client_count_def
          request_fails_cache)
next
  assume "client_count w (extractIP E (req_RemoteAddr req)) < 60"
  then show "clients (snd (rateLimiter E (handleRequestAndCache E) req (res, w))) =
          (clients w)(extractIP E (req_RemoteAddr req) \<mapsto>
             client_count w (extractIP E (req_RemoteAddr req)) + 1)"
    by (simp add: rateLimiter_clients handleRequestAndCache_clients)
qed (simp_all add: handleRequestAndCache_parse_failure handleRequestAndCache_forward_failure
       handleRequestAndCache_read_failure http_Error_fresh http_Error_trace)


theorem failing_request_witness:
  "url_Parse (env0\<lparr>url_Parse := \<lambda>s. None\<rparr>) (req_RequestURI (normalise_RequestURI req0)) = None
   \<and> rw_status (fst (handleRequestAndCache (env0\<lparr>url_Parse := \<lambda>s. None\<rparr>) req0
                        (new_response_writer True, init_world))) = 400
   \<and> client_Do (env0\<lparr>client_Do := \<lambda>p. None\<rparr>)
        \<lparr>preq_Method = req_Method req0, preq_URL = ''http://example.com/'',
         preq_Header = copy_header (req_Header req0) Map.empty,
         preq_Body = req_Body req0\<rparr> = None
   \<and> rw_status (fst (handleRequestAndCache (env0\<lparr>client_Do := \<lambda>p. None\<rparr>) req0
                        (new_response_writer True, init_world))) = 500
   \<and> cache (snd (handleRequestAndCache (env0\<lparr>client_Do := \<lambda>p. None\<rparr>) req0
                    (new_response_writer True, init_world))) = Map.empty
   \<and> rw_body (fst (handleRequestAndCache
                     (env0\<lparr>client_Do :=
                             \<lambda>p. Some \<lparr>up_StatusCode = 200, up_Header = [], up_Body = None\<rparr>\<rparr>)
                     req0 (new_response_writer True, init_world)))
       = ''Failed to read response body'' @ [CHR 0x0A]
   \<and> request_fails (env0\<lparr>url_Parse := \<lambda>s. None\<rparr>) req0 (cache init_world)
   \<and> client_count init_world ''10.0.0.1'' < 60
   \<and> clients (snd (rateLimiter (env0\<lparr>url_Parse := \<lambda>s. None\<rparr>)
                      (handleRequestAndCache (env0\<lparr>url_Parse := \<lambda>s. None\<rparr>)) req0
                      (new_response_writer True, init_world)))
       = [''10.0.0.1'' \<mapsto> 1]"
proof -
  let ?E1 = "env0\<lparr>url_Parse := \<lambda>s. None\<rparr>"
  let ?E2 = "env0\<lparr>client_Do := \<lambda>p. None\<rparr>"
  let ?E3 = "env0\<lparr>client_Do :=
                    \<lambda>p. Some \<lparr>up_StatusCode = 200, up_Header = [], up_Body = None\<rparr>\<rparr>"
  let ?preq = "\<lparr>preq_Method = req_Method req0, preq_URL = ''http://example.com/'',
                 preq_Header = copy_header (req_Header req0) Map.empty,
                 preq_Body = req_Body req0\<rparr>"
  have parse:
    "url_Parse ?E1 (req_RequestURI (normalise_RequestURI req0)) = None"
    "url_Parse ?E2 (req_RequestURI (normalise_RequestURI req0)) = Some (URL ''http://example.com/'')"
    "url_Parse ?E3 (req_RequestURI (normalise_RequestURI req0)) = Some (URL ''http://example.com/'')"
    by (simp_all add: normalise_req0 env0_def) (simp_all add: req0_def)
  have outside:
    "http_NewRequest_ok ?E2 (req_Method req0) ''http://example.com/''"
    "http_NewRequest_ok ?E3 (req_Method req0) ''http://example.com/''"
    "client_Do ?E2 ?preq = None"
    "client_Do ?E3 ?preq = Some \<lparr>up_StatusCode = 200, up_Header = [], up_Body = None\<rparr>"
    by (simp_all add: env0_def)
  have start:
    "cache init_world = Map.empty"
    "\<not> rw_wroteHeader (new_response_writer True)"
    "rw_body (new_response_writer True) = []"
    "client_count init_world ''10.0.0.1'' < 60"
    "clients init_world = Map.empty"
    "extractIP ?E1 (req_RemoteAddr req0) = ''10.0.0.1''"
    by (simp_all add: init_world_def new_response_writer_def client_count_def extractIP_def
          env0_def req0_def)
  have fails: "request_fails ?E1 req0 (cache init_world)"
    by (simp add: request_fails_def parse)
  show ?thesis
    using parse outside start fails
      failing_request_leaves_cache_and_answers_error
        [where E = "?E1" and req = req0 and res = "new_response_writer True" and w = init_world]
      failing_request_leaves_cache_and_answers_error
        [where E = "?E2" and req = req0 and res = "new_response_writer True" and w = init_world
           and u = "URL ''http://example.com/''"]
      failing_request_leaves_cache_and_answers_error
        [where E = "?E3" and req = req0 and res = "new_response_writer True" and w = init_world
           and u = "URL ''http://example.com/''"
           and resp = "\<lparr>up_StatusCode = 200, up_Header = [], up_Body = None\<rparr>"]
    by (simp add: client_count_def)
qed

subsection \<open>The routes\<close>

text \<open>
  C1. The routes send a request to a handler by the path of its URL, whatever its
  method: a CONNECT request, whose URL has no path, matches neither pattern and is
  answered 404 by the server, with no handler and no rate limiter run; a request for
  the path \<open>/CONNECT\<close> is given to \<open>handleConnect\<close> even when its method is GET; and a
  CONNECT request for the path \<open>/\<close> would be given to \<open>handleRequestAndCache\<close>.
\<close>

theorem dispatch_goes_by_path_not_by_method:
  "dispatch (req\<lparr>req_Method := m\<rparr>) = dispatch req
   \<and> dispatch connect_req = None
   \<and> rw_status (fst (serve env0 connect_req (new_response_writer True, init_world))) = 404
   \<and> clients (snd (serve env0 connect_req (new_response_writer True, init_world))) = Map.empty
   \<and> dispatch (req0\<lparr>req_URL_Path := ''/CONNECT''\<rparr>) = Some HandleConnect
   \<and> req_Method (req0\<lparr>req_URL_Path := ''/CONNECT''\<rparr>) = ''GET''
   \<and> dispatch (connect_req\<lparr>req_URL_Path := ''/''\<rparr>) = Some HandleRequestAndCache"
proof -
  have none: "dispatch connect_req = None"
    by (simp add: dispatch_def mux_match_def routes_def pattern_matches_def connect_req_def)
  have fresh: "\<not> rw_wroteHeader (fst (new_response_writer True, init_world))"
    by (simp add: new_response_writer_def)
  have "rw_status (fst (serve env0 connect_req (new_response_writer True, init_world))) = 404"
    using http_Error_fresh(1) [OF fresh] by (simp add: serve_def none http_NotFound_def)
  moreover have "clients (snd (serve env0 connect_req (new_response_writer True, init_world)))
                   = Map.empty"
    by (simp add: serve_def none http_NotFound_def init_world_def)
  moreover have "dispatch (req0\<lparr>req_URL_Path := ''/CONNECT''\<rparr>) = Some HandleConnect"
    "req_Method (req0\<lparr>req_URL_Path := ''/CONNECT''\<rparr>) = ''GET''"
    "dispatch (connect_req\<lparr>req_URL_Path := ''/''\<rparr>) = Some HandleRequestAndCache"
    by (simp_all add: dispatch_def mux_match_def routes_def pattern_matches_def connect_req_def
          req0_def)
  ultimately show ?thesis
    using none by (simp add: dispatch_def)
qed


subsection \<open>The tunnel handler and the two locks\<close>

lemma handleRequestAndCache_trace_extends:
  "\<exists>es. trace (snd (handleRequestAndCache E req st)) = trace (snd st) @ es"
  by (simp add: handleRequestAndCache_def Let_def http_Error_trace rw_Write_trace
        rw_WriteHeader_trace split: option.splits)

text \<open>
  C7. A CONNECT request whose dial succeeds, on a response writer that cannot be
  hijacked: \<open>handleConnect\<close> has already sent the status 200 when it finds that out, so
  the later \<open>http.Error\<close> with status 500 cannot change the status any more. The
  client observes the status 200 and the body \<open>Hijacking not supported\<close>, not an
  internal error; no tunnel is started.
\<close>

theorem handleConnect_unhijackable_answers_200:
  "net_Dial env0 (req_Host connect_req)
   \<and> \<not> rw_hijacker (new_response_writer False)
   \<and> rw_status (fst (handleConnect env0 connect_req (new_response_writer False, init_world)))
       = 200
   \<and> rw_status (fst (handleConnect env0 connect_req (new_response_writer False, init_world)))
       \<noteq> 500
   \<and> rw_body (fst (handleConnect env0 connect_req (new_response_writer False, init_world)))
       = ''Hijacking not supported'' @ [CHR 0x0A]
   \<and> trace (snd (handleConnect env0 connect_req (new_response_writer False, init_world)))
       = [NetDial ''example.com:443'', SendHeader 200,
          SendBody (''Hijacking not supported'' @ [CHR 0x0A]), CloseDestConn]"
  by (simp add: handleConnect_def Let_def env0_def connect_req_def new_response_writer_def
        init_world_def http_Error_def WriteHeader_panics_def checkWriteHeaderCode_def
        informational_def)

text \<open>
  C9. The rate limiter writes a log line (to the console and to the log file) between
  locking and unlocking \<open>clientsMux\<close>, for every request, admitted or rejected: its
  trace breaks the rule that nothing is read or written while one of the two locks is
  held. The sections under \<open>cacheMutex\<close> in \<open>handleRequestAndCache\<close>, and the rest of
  the rate limiter, keep it.
\<close>

theorem rateLimiter_logs_while_clientsMux_is_held:
  "\<not> no_io_while_locked []
       (trace (snd (rateLimiter E (\<lambda>r s. s) req (res, w\<lparr>trace := []\<rparr>))))
   \<and> \<not> no_io_while_locked []
         (trace (snd (rateLimiter env0 (handleRequestAndCache env0) req0
                        (new_response_writer True, init_world))))
   \<and> take 4 (trace (snd (rateLimiter env0 (handleRequestAndCache env0) req0
                           (new_response_writer True, init_world))))
       = [Lock clientsMux, ClientsGet ''10.0.0.1'', Lock logFileMutex,
          LogPrintf (ClientHasMade ''10.0.0.1'' 0)]
   \<and> no_io_while_locked []
         (trace (snd (handleRequestAndCache E req (res, w\<lparr>trace := []\<rparr>))))"
proof -
  have general: "\<not> no_io_while_locked []
       (trace (snd (rateLimiter E (\<lambda>r s. s) req (res, w\<lparr>trace := []\<rparr>))))"
    by (simp add: rateLimiter_def Let_def logEvent_def log_events_def http_Error_trace)
  obtain es where es: "trace (snd (handleRequestAndCache env0 req0
        (new_response_writer True,
         init_world\<lparr>clients := [''10.0.0.1'' \<mapsto> 1],
                     trace := [Lock clientsMux, ClientsGet ''10.0.0.1'', Lock logFileMutex,
                               LogPrintf (ClientHasMade ''10.0.0.1'' 0),
                               LogFileWrite (ClientHasMade ''10.0.0.1'' 0),
                               Unlock logFileMutex, ClientsPut ''10.0.0.1'',
                               Unlock clientsMux]\<rparr>)))
      = [Lock clientsMux, ClientsGet ''10.0.0.1'', Lock logFileMutex,
         LogPrintf (ClientHasMade ''10.0.0.1'' 0), LogFileWrite (ClientHasMade ''10.0.0.1'' 0),
         Unlock logFileMutex, ClientsPut ''10.0.0.1'', Unlock clientsMux] @ es"
    using handleRequestAndCache_trace_extends
            [of env0 req0 "(new_response_writer True,
               init_world\<lparr>clients := [''10.0.0.1'' \<mapsto> 1],
                     trace := [Lock clientsMux, ClientsGet ''10.0.0.1'', Lock logFileMutex,
                               LogPrintf (ClientHasMade ''10.0.0.1'' 0),
                               LogFileWrite (ClientHasMade ''10.0.0.1'' 0),
                               Unlock logFileMutex, ClientsPut ''10.0.0.1'',
                               Unlock clientsMux]\<rparr>)"]
    by auto
  have tr: "trace (snd (rateLimiter env0 (handleRequestAndCache env0) req0
                           (new_response_writer True, init_world)))
      = [Lock clientsMux, ClientsGet ''10.0.0.1'', Lock logFileMutex,
          LogPrintf (ClientHasMade ''10.0.0.1'' 0), LogFileWrite (ClientHasMade ''10.0.0.1'' 0),
          Unlock logFileMutex, ClientsPut ''10.0.0.1'', Unlock clientsMux] @ es"
    by (simp add: rateLimiter_def Let_def logEvent_def log_events_def extractIP_req0
          client_count_def init_world_def maxRequestsPerMinute_def) (simp add: es [unfolded init_world_def, simplified])
  have concrete: "\<not> no_io_while_locked []
         (trace (snd (rateLimiter env0 (handleRequestAndCache env0) req0
                        (new_response_writer True, init_world))))"
    by (subst tr) simp
  have first4: "take 4 (trace (snd (rateLimiter env0 (handleRequestAndCache env0) req0
                           (new_response_writer True, init_world))))
       = [Lock clientsMux, ClientsGet ''10.0.0.1'', Lock logFileMutex,
          LogPrintf (ClientHasMade ''10.0.0.1'' 0)]"
    by (subst tr) simp
  have handler: "no_io_while_locked []
         (trace (snd (handleRequestAndCache E req (res, w\<lparr>trace := []\<rparr>))))"
    by (simp add: handleRequestAndCache_def Let_def logEvent_def log_events_def http_Error_trace
          rw_Write_trace rw_WriteHeader_trace split: option.splits)
  show ?thesis
    using general concrete first4 handler by simp
qed

subsection \<open>The digest in hexadecimal\<close>

lemma length_sprintf_x: "length (sprintf_x bs) = 2 * length bs"
  by (induction bs) (simp_all add: sprintf_x_def hex_byte_def)

lemma length_be32_bytes: "length (be32_bytes n) = 4"
  by (simp add: be32_bytes_def)

lemma length_sha1_Sum: "length (sha1_Sum m) = 20"
  by (simp add: sha1_Sum_def length_be32_bytes split: prod.splits)

lemma length_cacheKey: "length (cacheKey u) = 40"
  by (simp add: cacheKey_def length_sprintf_x length_sha1_Sum)




lemma finite_range_cacheKey: "finite (range cacheKey)"
proof -
  have "range cacheKey \<subseteq> {xs. set xs \<subseteq> (UNIV :: char set) \<and> length xs = 40}"
    by (auto simp add: length_cacheKey)
  moreover have "finite {xs. set xs \<subseteq> (UNIV :: char set) \<and> length xs = 40}"
    by (rule finite_lists_length_eq) simp
  ultimately show ?thesis
    by (rule finite_subset)
qed

lemma inj_query_url: "inj query_url"
proof (rule injI)
  fix m n
  assume "query_url m = query_url n"
  then have "replicate m CHR ''a'' = replicate n CHR ''a''"
    by (simp add: query_url_def)
  then have "length (replicate m CHR ''a'') = length (replicate n CHR ''a'')"
    by (rule arg_cong)
  then show "m = n" by simp
qed






subsection \<open>Computing a digest\<close>



























subsection \<open>The cache key\<close>



text \<open>
  The digests above are compared for given URLs. For all pairs of different URLs the
  comparison cannot come out different: there are infinitely many URLs, even among
  those that differ in the query string only, and finitely many digests.
\<close>

lemma digests_do_not_separate_all_urls:
  "\<not> (\<forall>m n. query_url m \<noteq> query_url n \<longrightarrow> cacheKey (query_url m) \<noteq> cacheKey (query_url n))"
proof
  assume distinct: "\<forall>m n. query_url m \<noteq> query_url n \<longrightarrow>
                      cacheKey (query_url m) \<noteq> cacheKey (query_url n)"
  have "inj (\<lambda>n. cacheKey (query_url n))"
  proof (rule injI)
    fix m n
    assume "cacheKey (query_url m) = cacheKey (query_url n)"
    with distinct have "query_url m = query_url n" by blast
    then show "m = n" using inj_query_url by (simp add: inj_def)
  qed
  then have inj: "inj_on (\<lambda>n. cacheKey (query_url n)) UNIV" .
  have "range (\<lambda>n. cacheKey (query_url n)) \<subseteq> range cacheKey"
    by auto
  then have "finite (range (\<lambda>n. cacheKey (query_url n)))"
    using finite_range_cacheKey by (rule finite_subset)
  then have "finite (UNIV :: nat set)"
    using inj by (rule finite_imageD)
  then show False by simp
qed

end
